theory Spec2Isabelle
  imports Complex_Main "HOL-Library.Sublist"
begin

section \<open>Data model (frontend/src/types/ticket.ts)\<close>

text \<open>
  Strings are byte strings; the case mapping and the white space of the model are the
  ASCII ones. A point in time is the number of milliseconds since the epoch (negative
  before 1970): the ISO-8601 text that the backend stores and the \<open>Date\<close> of the
  frontend types are two renderings of that number.
\<close>

type_synonym timestamp = int

datatype Priority = LOW | MEDIUM | HIGH | URGENT

datatype Status = SCHEDULED | IN_PROGRESS | ACTIVE | OVERDUE | COMPLETED

datatype CustomerType = ENTERPRISE | SMB | STARTUP

text \<open>
  A subtask. In a create input the fields \<open>id\<close> and \<open>completedAt\<close> are omitted
  (\<open>Omit<Subtask, 'id' | 'completedAt'>\<close>) and the backend stores the array as it comes,
  so both are optional here.
\<close>

record Subtask =
  s_id :: "string option"
  s_text :: string
  s_completed :: bool
  s_completedAt :: "timestamp option"

text \<open>The interface \<open>Ticket\<close>; the fields \<open>id\<close> and \<open>notes\<close> are named \<open>t_id\<close> and \<open>notes_t\<close>.\<close>

record Ticket =
  t_id :: string
  ticketId :: string
  title :: string
  description :: string
  deadline :: timestamp
  priority :: Priority
  category :: string
  status :: Status
  completedAt :: "timestamp option"
  createdAt :: timestamp
  updatedAt :: timestamp
  csamName :: string
  tpid :: string
  agreementId :: string
  customerName :: string
  customerType :: CustomerType
  notes_t :: "string list"
  subtasks :: "Subtask list"
  assignedTo :: "string option"
  tags :: "string list"

text \<open>
  The interface \<open>TicketCreateInput\<close> as a request body: the service and the controller
  both test every field for presence, so every field is optional (\<open>None\<close> is an absent
  key).
\<close>

record TicketCreateInput =
  c_ticketId :: "string option"
  c_title :: "string option"
  c_description :: "string option"
  c_priority :: "Priority option"
  c_status :: "Status option"
  c_category :: "string option"
  c_deadline :: "timestamp option"
  c_csamName :: "string option"
  c_tpid :: "string option"
  c_agreementId :: "string option"
  c_customerName :: "string option"
  c_customerType :: "CustomerType option"
  c_notes :: "string list option"
  c_subtasks :: "Subtask list option"
  c_assignedTo :: "string option"
  c_tags :: "string list option"

text \<open>
  The interface \<open>TicketUpdateInput\<close>, which is also the body of a PUT request. Every key
  is optional; \<open>u_id\<close> and \<open>u_createdAt\<close> are the keys the controller deletes. For the
  two nullable fields \<open>Some None\<close> is the JSON value \<open>null\<close>.
\<close>

record TicketUpdateInput =
  u_id :: "string option"
  u_createdAt :: "timestamp option"
  u_ticketId :: "string option"
  u_title :: "string option"
  u_description :: "string option"
  u_deadline :: "timestamp option"
  u_priority :: "Priority option"
  u_category :: "string option"
  u_status :: "Status option"
  u_completedAt :: "timestamp option option"
  u_updatedAt :: "timestamp option"
  u_csamName :: "string option"
  u_tpid :: "string option"
  u_agreementId :: "string option"
  u_customerName :: "string option"
  u_customerType :: "CustomerType option"
  u_notes :: "string list option"
  u_subtasks :: "Subtask list option"
  u_assignedTo :: "string option option"
  u_tags :: "string list option"

text \<open>The interface \<open>TicketFilters\<close>.\<close>

record TicketFilters =
  f_status :: "Status list option"
  f_priority :: "Priority list option"
  f_category :: "string list option"
  f_csamName :: "string list option"
  f_customerName :: "string option"
  f_assignedTo :: "string option"
  f_tags :: "string list option"
  f_search :: "string option"


section \<open>JavaScript helpers\<close>

text \<open>Truthiness of an optional string: \<open>undefined\<close> and \<open>''\<close> are falsy.\<close>

definition truthy :: "string option \<Rightarrow> bool" where
  "truthy x = (case x of None \<Rightarrow> False | Some s \<Rightarrow> s \<noteq> [])"

text \<open>\<open>x || d\<close> on an optional string.\<close>

definition or_str :: "string option \<Rightarrow> string \<Rightarrow> string" where
  "or_str x d = (case x of None \<Rightarrow> d | Some s \<Rightarrow> if s = [] then d else s)"

text \<open>\<open>x || d\<close> where every present value is truthy (enumeration members, arrays).\<close>

definition or_val :: "'a option \<Rightarrow> 'a \<Rightarrow> 'a" where
  "or_val x d = (case x of None \<Rightarrow> d | Some v \<Rightarrow> v)"

definition toLowerCase_char :: "char \<Rightarrow> char" where
  "toLowerCase_char c =
     (let n = (of_char c :: nat) in if 65 \<le> n \<and> n \<le> 90 then char_of (n + 32) else c)"

definition toLowerCase :: "string \<Rightarrow> string" where
  "toLowerCase s = map toLowerCase_char s"

definition isWhiteSpace :: "char \<Rightarrow> bool" where
  "isWhiteSpace c = ((of_char c :: nat) \<in> {9, 10, 11, 12, 13, 32})"

definition trim :: "string \<Rightarrow> string" where
  "trim s = rev (dropWhile isWhiteSpace (rev (dropWhile isWhiteSpace s)))"

text \<open>\<open>hay.includes(needle)\<close> on strings: the needle is a contiguous part of the text.\<close>

definition includes_str :: "string \<Rightarrow> string \<Rightarrow> bool" where
  "includes_str hay needle = sublist needle hay"

text \<open>\<open>parts.join(sep)\<close>.\<close>

fun join :: "string \<Rightarrow> string list \<Rightarrow> string" where
  "join sep [] = []"
| "join sep [x] = x"
| "join sep (x # y # ys) = x @ sep @ join sep (y # ys)"

text \<open>\<open>xs.findIndex(p)\<close>; \<open>None\<close> is the result \<open>-1\<close>.\<close>

fun findIndex :: "('a \<Rightarrow> bool) \<Rightarrow> 'a list \<Rightarrow> nat option" where
  "findIndex p [] = None"
| "findIndex p (x # xs) =
     (if p x then Some 0 else (case findIndex p xs of None \<Rightarrow> None | Some k \<Rightarrow> Some (Suc k)))"

fun digit_char :: "nat \<Rightarrow> char" where
  "digit_char n = char_of (48 + n)"

fun toString_nat :: "nat \<Rightarrow> string" where
  "toString_nat n = (if n < 10 then [digit_char n] else toString_nat (n div 10) @ [digit_char (n mod 10)])"

datatype js_error = Error string

section \<open>Backend: the ticket controller\<close>

text \<open>
  The environment of one operation: whether \<open>fetch\<close> rejects (and with which message),
  the string \<open>generateId()\<close> returns (time and random digits, in base 36), and the
  readings of the clocks: one for each \<open>new Date()\<close> of the controller, and the
  client's clock.
\<close>

record env =
  fetch_fails :: "string option"
  generateId :: string
  now_deadline :: timestamp
  now_createdAt :: timestamp
  now_updatedAt :: timestamp
  now_completedAt :: timestamp
  now_client :: timestamp

text \<open>An HTTP response: the status and the envelope \<open>{success, data, error}\<close>.\<close>

record 'a Response =
  statusCode :: nat
  success :: bool
  data :: "'a option"
  r_error :: "string option"

definition succeed :: "nat \<Rightarrow> 'a \<Rightarrow> 'a Response" where
  "succeed code d = \<lparr>statusCode = code, success = True, data = Some d, r_error = None\<rparr>"

definition fail :: "nat \<Rightarrow> string \<Rightarrow> 'a Response" where
  "fail code msg = \<lparr>statusCode = code, success = False, data = None, r_error = Some msg\<rparr>"

text \<open>The initial contents of the controller's array \<open>tickets\<close>.\<close>

definition initial_tickets :: "Ticket list" where
  "initial_tickets =
    [\<lparr>t_id = ''1'', ticketId = ''TCK-001'', title = ''Implement user authentication'',
      description = ''Add login and registration functionality'', deadline = 1767139200000,
      priority = HIGH, category = ''Feature'', status = SCHEDULED, completedAt = None,
      createdAt = 1761955200000, updatedAt = 1761955200000, csamName = ''John Doe'',
      tpid = ''TP-001'', agreementId = ''AGR-001'', customerName = ''Acme Corp'',
      customerType = ENTERPRISE, notes_t = [], subtasks = [], assignedTo = Some ''user-1'',
      tags = [''auth'', ''security'']\<rparr>,
     \<lparr>t_id = ''2'', ticketId = ''TCK-002'', title = ''Fix payment processing bug'',
      description = ''Payment gateway integration issue'', deadline = 1763596800000,
      priority = URGENT, category = ''Bug'', status = IN_PROGRESS, completedAt = None,
      createdAt = 1762300800000, updatedAt = 1762732800000, csamName = ''Jane Smith'',
      tpid = ''TP-002'', agreementId = ''AGR-002'', customerName = ''Tech Startup'',
      customerType = STARTUP, notes_t = [], subtasks = [], assignedTo = Some ''user-2'',
      tags = [''payment'', ''bug'']\<rparr>,
     \<lparr>t_id = ''3'', ticketId = ''TCK-003'', title = ''Design new dashboard UI'',
      description = ''Create modern dashboard interface'', deadline = 1765756800000,
      priority = MEDIUM, category = ''Design'', status = ACTIVE, completedAt = None,
      createdAt = 1762560000000, updatedAt = 1762905600000, csamName = ''Bob Johnson'',
      tpid = ''TP-003'', agreementId = ''AGR-003'', customerName = ''SMB Inc'',
      customerType = SMB, notes_t = [], subtasks = [], assignedTo = None,
      tags = [''design'', ''ui'']\<rparr>,
     \<lparr>t_id = ''4'', ticketId = ''TCK-004'', title = ''Update API documentation'',
      description = ''Document all API endpoints'', deadline = 1762732800000,
      priority = LOW, category = ''Documentation'', status = OVERDUE, completedAt = None,
      createdAt = 1760918400000, updatedAt = 1762732800000, csamName = ''Alice Williams'',
      tpid = ''TP-004'', agreementId = ''AGR-004'', customerName = ''Dev Corp'',
      customerType = ENTERPRISE, notes_t = [], subtasks = [], assignedTo = Some ''user-3'',
      tags = [''docs'', ''api'']\<rparr>,
     \<lparr>t_id = ''5'', ticketId = ''TCK-005'', title = ''Setup CI/CD pipeline'',
      description = ''Configure automated deployment'', deadline = 1763164800000,
      priority = HIGH, category = ''DevOps'', status = COMPLETED,
      completedAt = Some 1763078400000,
      createdAt = 1761350400000, updatedAt = 1763078400000, csamName = ''Charlie Brown'',
      tpid = ''TP-005'', agreementId = ''AGR-005'', customerName = ''Cloud Services'',
      customerType = ENTERPRISE, notes_t = [], subtasks = [], assignedTo = Some ''user-1'',
      tags = [''ci-cd'', ''devops'']\<rparr>]"

text \<open>\<open>exports.getTickets\<close>.\<close>

definition controller_getTickets :: "Ticket list \<Rightarrow> Ticket list Response" where
  "controller_getTickets tickets = succeed 200 tickets"

text \<open>
  \<open>exports.createTicket\<close>: the response and the array afterwards. The body's deadline is
  a point in time already, so \<open>new Date(deadline).toISOString()\<close> is the identity.
\<close>

definition controller_createTicket ::
  "env \<Rightarrow> TicketCreateInput \<Rightarrow> Ticket list \<Rightarrow> Ticket Response \<times> Ticket list" where
  "controller_createTicket e body tickets =
     (if \<not> truthy (c_ticketId body) \<or> \<not> truthy (c_title body)
      then (fail 400 ''Ticket ID and title are required'', tickets)
      else (case find (\<lambda>t. Some (ticketId t) = c_ticketId body) tickets of
          Some existingTicket \<Rightarrow> (fail 400 ''Ticket ID already exists'', tickets)
        | None \<Rightarrow>
           (let newTicket =
              \<lparr>t_id = generateId e,
               ticketId = or_str (c_ticketId body) [],
               title = or_str (c_title body) [],
               description = or_str (c_description body) [],
               deadline = (case c_deadline body of Some d \<Rightarrow> d | None \<Rightarrow> now_deadline e),
               priority = or_val (c_priority body) MEDIUM,
               category = or_str (c_category body) ''General'',
               status = or_val (c_status body) SCHEDULED,
               completedAt = None,
               createdAt = now_createdAt e,
               updatedAt = now_updatedAt e,
               csamName = or_str (c_csamName body) [],
               tpid = or_str (c_tpid body) [],
               agreementId = or_str (c_agreementId body) [],
               customerName = or_str (c_customerName body) [],
               customerType = or_val (c_customerType body) SMB,
               notes_t = or_val (c_notes body) [],
               subtasks = or_val (c_subtasks body) [],
               assignedTo = (if truthy (c_assignedTo body) then c_assignedTo body else None),
               tags = or_val (c_tags body) []\<rparr>
            in (succeed 201 newTicket, tickets @ [newTicket]))))"

text \<open>The object spread \<open>{...ticket, ...updateData}\<close>: a present key of the body wins.\<close>

definition override :: "'a \<Rightarrow> 'a option \<Rightarrow> 'a" where
  "override old new = (case new of None \<Rightarrow> old | Some v \<Rightarrow> v)"

definition spread :: "Ticket \<Rightarrow> TicketUpdateInput \<Rightarrow> Ticket" where
  "spread t u =
     \<lparr>t_id = override (t_id t) (u_id u),
      ticketId = override (ticketId t) (u_ticketId u),
      title = override (title t) (u_title u),
      description = override (description t) (u_description u),
      deadline = override (deadline t) (u_deadline u),
      priority = override (priority t) (u_priority u),
      category = override (category t) (u_category u),
      status = override (status t) (u_status u),
      completedAt = override (completedAt t) (u_completedAt u),
      createdAt = override (createdAt t) (u_createdAt u),
      updatedAt = override (updatedAt t) (u_updatedAt u),
      csamName = override (csamName t) (u_csamName u),
      tpid = override (tpid t) (u_tpid u),
      agreementId = override (agreementId t) (u_agreementId u),
      customerName = override (customerName t) (u_customerName u),
      customerType = override (customerType t) (u_customerType u),
      notes_t = override (notes_t t) (u_notes u),
      subtasks = override (subtasks t) (u_subtasks u),
      assignedTo = override (assignedTo t) (u_assignedTo u),
      tags = override (tags t) (u_tags u)\<rparr>"

text \<open>\<open>exports.updateTicket\<close>, with the id of the route and the body of the request.\<close>

definition controller_updateTicket ::
  "env \<Rightarrow> string \<Rightarrow> TicketUpdateInput \<Rightarrow> Ticket list \<Rightarrow> Ticket Response \<times> Ticket list" where
  "controller_updateTicket e i body tickets =
     (case findIndex (\<lambda>t. t_id t = i) tickets of
        None \<Rightarrow> (fail 404 ''Ticket not found'', tickets)
      | Some ticketIndex \<Rightarrow>
         (let updateData = body\<lparr>u_id := None, u_createdAt := None\<rparr>;
              updatedTicket = (spread (tickets ! ticketIndex) updateData)
                \<lparr>updatedAt := now_updatedAt e,
                 completedAt :=
                   (if u_status updateData = Some COMPLETED then Some (now_completedAt e)
                    else completedAt (tickets ! ticketIndex))\<rparr>
          in (succeed 200 updatedTicket, tickets[ticketIndex := updatedTicket])))"

text \<open>\<open>exports.deleteTicket\<close>; \<open>splice(ticketIndex, 1)\<close> removes one element.\<close>

definition controller_deleteTicket :: "string \<Rightarrow> Ticket list \<Rightarrow> string Response \<times> Ticket list" where
  "controller_deleteTicket i tickets =
     (case findIndex (\<lambda>t. t_id t = i) tickets of
        None \<Rightarrow> (fail 404 ''Ticket not found'', tickets)
      | Some ticketIndex \<Rightarrow>
         (succeed 200 ''Ticket deleted successfully'',
          take ticketIndex tickets @ drop (Suc ticketIndex) tickets))"


section \<open>Frontend: the API layer (services/api.ts)\<close>

text \<open>
  The requests the client issues. The world holds the controller's array, the requests
  sent so far (appended by every call of \<open>fetch\<close>) and the state of the hook.
\<close>

datatype request =
  GET string
| POST string TicketCreateInput
| PUT string TicketUpdateInput
| DELETE string

record UseTickets =
  tickets :: "Ticket list"
  loading :: bool
  error :: "string option"

record world =
  backend :: "Ticket list"
  wire :: "request list"
  hook :: UseTickets

text \<open>
  \<open>handleResponse\<close>: a response that is not ok (status outside 200..299) is thrown as an
  \<open>Error\<close> whose message is \<open>errorData.message || errorData.error || `HTTP error!
  status: ...`\<close>; the envelope has no key \<open>message\<close>.
\<close>

definition handleResponse :: "'a Response \<Rightarrow> js_error + 'a Response" where
  "handleResponse response =
     (if \<not> (200 \<le> statusCode response \<and> statusCode response \<le> 299)
      then Inl (Error (or_str (r_error response)
                         (''HTTP error! status: '' @ toString_nat (statusCode response))))
      else Inr response)"

text \<open>
  \<open>apiRequest\<close>: \<open>fetch\<close> either rejects, or the route's handler runs on the controller's
  array and its response is handled. The handler is the one \<open>routes/tickets.js\<close> binds to
  the method and path.
\<close>

definition apiRequest ::
  "env \<Rightarrow> request \<Rightarrow> (Ticket list \<Rightarrow> 'a Response \<times> Ticket list) \<Rightarrow> world
     \<Rightarrow> (js_error + 'a Response) \<times> world" where
  "apiRequest e req handler w =
     (let w1 = w\<lparr>wire := wire w @ [req]\<rparr> in
      case fetch_fails e of
        Some msg \<Rightarrow> (Inl (Error msg), w1)
      | None \<Rightarrow>
         (case handler (backend w1) of
            (response, tickets') \<Rightarrow> (handleResponse response, w1\<lparr>backend := tickets'\<rparr>)))"

definition api_fetchTickets :: "env \<Rightarrow> world \<Rightarrow> (js_error + Ticket list) \<times> world" where
  "api_fetchTickets e w =
     (case apiRequest e (GET ''/api/tickets'') (\<lambda>ts. (controller_getTickets ts, ts)) w of
        (Inl err, w') \<Rightarrow> (Inl err, w')
      | (Inr response, w') \<Rightarrow> (Inr (or_val (data response) []), w'))"

definition api_createTicket ::
  "env \<Rightarrow> TicketCreateInput \<Rightarrow> world \<Rightarrow> (js_error + Ticket) \<times> world" where
  "api_createTicket e ticketData w =
     (case apiRequest e (POST ''/api/tickets'' ticketData) (controller_createTicket e ticketData) w of
        (Inl err, w') \<Rightarrow> (Inl err, w')
      | (Inr response, w') \<Rightarrow>
         (case data response of
            None \<Rightarrow> (Inl (Error ''Failed to create ticket''), w')
          | Some t \<Rightarrow> (Inr t, w')))"

text \<open>
  \<open>updateTicket\<close> of the API layer: \<open>const { id, ...updateData } = ticketData\<close>; an
  undefined id is interpolated as the text \<open>undefined\<close>.
\<close>

definition api_updateTicket ::
  "env \<Rightarrow> TicketUpdateInput \<Rightarrow> world \<Rightarrow> (js_error + Ticket) \<times> world" where
  "api_updateTicket e ticketData w =
     (let i = or_val (u_id ticketData) ''undefined'';
          updateData = ticketData\<lparr>u_id := None\<rparr> in
      case apiRequest e (PUT (''/api/tickets/'' @ i) updateData)
             (controller_updateTicket e i updateData) w of
        (Inl err, w') \<Rightarrow> (Inl err, w')
      | (Inr response, w') \<Rightarrow>
         (case data response of
            None \<Rightarrow> (Inl (Error ''Failed to update ticket''), w')
          | Some t \<Rightarrow> (Inr t, w')))"

definition api_deleteTicket :: "env \<Rightarrow> string \<Rightarrow> world \<Rightarrow> (js_error + unit) \<times> world" where
  "api_deleteTicket e i w =
     (case apiRequest e (DELETE (''/api/tickets/'' @ i)) (controller_deleteTicket i) w of
        (Inl err, w') \<Rightarrow> (Inl err, w')
      | (Inr response, w') \<Rightarrow> (Inr (), w'))"

section \<open>Frontend: the ticket service (services/ticketService.ts)\<close>

text \<open>The callback of \<open>tickets.filter\<close> in \<open>fetchTickets\<close>.\<close>

definition keepTicket :: "TicketFilters \<Rightarrow> Ticket \<Rightarrow> bool" where
  "keepTicket filters ticket =
     (if (case f_status filters of None \<Rightarrow> False
          | Some xs \<Rightarrow> 0 < length xs \<and> status ticket \<notin> set xs) then False
      else if (case f_priority filters of None \<Rightarrow> False
          | Some xs \<Rightarrow> 0 < length xs \<and> priority ticket \<notin> set xs) then False
      else if (case f_category filters of None \<Rightarrow> False
          | Some xs \<Rightarrow> 0 < length xs \<and> category ticket \<notin> set xs) then False
      else if (case f_csamName filters of None \<Rightarrow> False
          | Some xs \<Rightarrow> 0 < length xs \<and> csamName ticket \<notin> set xs) then False
      else if (case f_customerName filters of None \<Rightarrow> False
          | Some s \<Rightarrow> s \<noteq> [] \<and>
              \<not> includes_str (toLowerCase (customerName ticket)) (toLowerCase s)) then False
      else if (case f_assignedTo filters of None \<Rightarrow> False
          | Some s \<Rightarrow> s \<noteq> [] \<and> assignedTo ticket \<noteq> Some s) then False
      else if (case f_tags filters of None \<Rightarrow> False
          | Some xs \<Rightarrow> 0 < length xs \<and> \<not> list_ex (\<lambda>tag. tag \<in> set (tags ticket)) xs) then False
      else if (case f_search filters of None \<Rightarrow> False
          | Some s \<Rightarrow> s \<noteq> [] \<and>
              (let searchLower = toLowerCase s;
                   searchableText = toLowerCase (join '' ''
                     [title ticket, description ticket, ticketId ticket,
                      customerName ticket, csamName ticket])
               in \<not> includes_str searchableText searchLower)) then False
      else True)"

definition service_fetchTickets ::
  "env \<Rightarrow> TicketFilters option \<Rightarrow> world \<Rightarrow> (js_error + Ticket list) \<times> world" where
  "service_fetchTickets e filters w =
     (case api_fetchTickets e w of
        (Inl err, w') \<Rightarrow> (Inl err, w')
      | (Inr ts, w') \<Rightarrow>
         (case filters of
            None \<Rightarrow> (Inr ts, w')
          | Some f \<Rightarrow> (Inr (filter (keepTicket f) ts), w')))"

text \<open>The object \<open>ticketWithDefaults\<close> of \<open>createTicket\<close>.\<close>

definition ticketWithDefaults :: "TicketCreateInput \<Rightarrow> TicketCreateInput" where
  "ticketWithDefaults ticketData =
     ticketData\<lparr>c_priority := Some (or_val (c_priority ticketData) MEDIUM),
                c_status := Some (or_val (c_status ticketData) SCHEDULED),
                c_notes := Some (or_val (c_notes ticketData) []),
                c_tags := Some (or_val (c_tags ticketData) []),
                c_subtasks := Some (or_val (c_subtasks ticketData) [])\<rparr>"

text \<open>\<open>!s || s.trim().length === 0\<close>.\<close>

definition blank :: "string option \<Rightarrow> bool" where
  "blank x = (case x of None \<Rightarrow> True | Some s \<Rightarrow> s = [] \<or> length (trim s) = 0)"

definition service_createTicket ::
  "env \<Rightarrow> TicketCreateInput \<Rightarrow> world \<Rightarrow> (js_error + Ticket) \<times> world" where
  "service_createTicket e ticketData w =
     (if blank (c_title ticketData) then (Inl (Error ''Ticket title is required''), w)
      else if blank (c_ticketId ticketData) then (Inl (Error ''Ticket ID is required''), w)
      else api_createTicket e (ticketWithDefaults ticketData) w)"

definition service_updateTicket ::
  "env \<Rightarrow> TicketUpdateInput \<Rightarrow> world \<Rightarrow> (js_error + Ticket) \<times> world" where
  "service_updateTicket e ticketData w =
     (if \<not> truthy (u_id ticketData) then (Inl (Error ''Ticket ID is required for update''), w)
      else api_updateTicket e ticketData w)"

text \<open>The update input with no key set.\<close>

definition no_update :: TicketUpdateInput where
  "no_update =
     \<lparr>u_id = None, u_createdAt = None, u_ticketId = None, u_title = None,
      u_description = None, u_deadline = None, u_priority = None, u_category = None,
      u_status = None, u_completedAt = None, u_updatedAt = None, u_csamName = None,
      u_tpid = None, u_agreementId = None, u_customerName = None, u_customerType = None,
      u_notes = None, u_subtasks = None, u_assignedTo = None, u_tags = None\<rparr>"

text \<open>
  \<open>updateTicketStatus\<close>: the payload \<open>{id, status, completedAt}\<close>, where \<open>completedAt\<close> is
  the client's \<open>new Date()\<close> for COMPLETED and undefined (no key) otherwise.
\<close>

definition updateTicketStatus ::
  "env \<Rightarrow> string \<Rightarrow> Status \<Rightarrow> world \<Rightarrow> (js_error + Ticket) \<times> world" where
  "updateTicketStatus e i st w =
     service_updateTicket e
       (no_update\<lparr>u_id := Some i, u_status := Some st,
                  u_completedAt := (if st = COMPLETED then Some (Some (now_client e)) else None)\<rparr>) w"

definition service_deleteTicket :: "env \<Rightarrow> string \<Rightarrow> world \<Rightarrow> (js_error + unit) \<times> world" where
  "service_deleteTicket e i w = api_deleteTicket e i w"

section \<open>Frontend: the hook \<open>useTickets\<close>\<close>

text \<open>
  What a function of the hook resolves to: a ticket, \<open>null\<close>, a boolean, or nothing
  (\<open>Promise<void>\<close>). The state is the one after the last \<open>set...\<close> call. Every
  value thrown in the layers below is an \<open>Error\<close>, so the message shown is always
  \<open>err.message\<close>.
\<close>

datatype js_result = Ticket_result Ticket | Null_result | Boolean_result bool | Undefined_result

definition message :: "js_error \<Rightarrow> string" where
  "message err = (case err of Error m \<Rightarrow> m)"

text \<open>\<open>fetchTickets\<close> of the hook, exported as \<open>refreshTickets\<close>.\<close>

definition refreshTickets :: "env \<Rightarrow> world \<Rightarrow> js_result \<times> world" where
  "refreshTickets e w =
     (case service_fetchTickets e None w of
        (Inr fetchedTickets, w') \<Rightarrow>
          (Undefined_result,
           w'\<lparr>hook := \<lparr>tickets = fetchedTickets, loading = False, error = None\<rparr>\<rparr>)
      | (Inl err, w') \<Rightarrow>
          (Undefined_result,
           w'\<lparr>hook := (hook w')\<lparr>loading := False, error := Some (message err)\<rparr>\<rparr>))"

definition addTicket :: "env \<Rightarrow> TicketCreateInput \<Rightarrow> world \<Rightarrow> js_result \<times> world" where
  "addTicket e ticketData w =
     (case service_createTicket e ticketData w of
        (Inr newTicket, w') \<Rightarrow>
          (Ticket_result newTicket,
           w'\<lparr>hook := (hook w')\<lparr>tickets := tickets (hook w') @ [newTicket], error := None\<rparr>\<rparr>)
      | (Inl err, w') \<Rightarrow>
          (Null_result, w'\<lparr>hook := (hook w')\<lparr>error := Some (message err)\<rparr>\<rparr>))"

definition hook_updateTicket :: "env \<Rightarrow> TicketUpdateInput \<Rightarrow> world \<Rightarrow> js_result \<times> world" where
  "hook_updateTicket e ticketData w =
     (case service_updateTicket e ticketData w of
        (Inr updatedTicket, w') \<Rightarrow>
          (Ticket_result updatedTicket,
           w'\<lparr>hook := (hook w')
              \<lparr>tickets := map (\<lambda>ticket. if t_id ticket = t_id updatedTicket then updatedTicket
                                         else ticket) (tickets (hook w')),
               error := None\<rparr>\<rparr>)
      | (Inl err, w') \<Rightarrow>
          (Null_result, w'\<lparr>hook := (hook w')\<lparr>error := Some (message err)\<rparr>\<rparr>))"

definition hook_deleteTicket :: "env \<Rightarrow> string \<Rightarrow> world \<Rightarrow> js_result \<times> world" where
  "hook_deleteTicket e i w =
     (case service_deleteTicket e i w of
        (Inr u, w') \<Rightarrow>
          (Boolean_result True,
           w'\<lparr>hook := (hook w')
              \<lparr>tickets := filter (\<lambda>ticket. t_id ticket \<noteq> i) (tickets (hook w')),
               error := None\<rparr>\<rparr>)
      | (Inl err, w') \<Rightarrow>
          (Boolean_result False, w'\<lparr>hook := (hook w')\<lparr>error := Some (message err)\<rparr>\<rparr>))"


section \<open>Derived metadata\<close>

text \<open>
  Modelled from the spec: \<open>completedSubtasksCount\<close> of the derived-metadata projection,
  the count of subtasks with completion flag true. The source declares the fields of
  \<open>TicketWithMetadata\<close> and has no function that computes them.
\<close>

definition completedSubtasksCount :: "Ticket \<Rightarrow> nat" where
  "completedSubtasksCount t = length (filter s_completed (subtasks t))"

text \<open>
  Modelled from the spec: \<open>totalSubtasksCount\<close> of the derived-metadata projection, the
  total subtask count; the source has no function that computes it.
\<close>

definition totalSubtasksCount :: "Ticket \<Rightarrow> nat" where
  "totalSubtasksCount t = length (subtasks t)"

text \<open>
  Modelled from the spec: \<open>completionPercentage\<close> of the derived-metadata projection;
  the source has no function that computes it. The spec: the count of subtasks with
  completion flag true, divided by the total subtask count, scaled to 0--100; defined as
  0 when there are no subtasks. The quotient is exact (a rational).
\<close>

definition completionPercentage :: "Ticket \<Rightarrow> rat" where
  "completionPercentage t =
     (if totalSubtasksCount t = 0 then 0
      else of_nat (completedSubtasksCount t) / of_nat (totalSubtasksCount t) * 100)"

section \<open>The filter semantics in the words of the specification\<close>

text \<open>
  A set-valued field matches when the ticket's value is in the given set; a text field
  matches when it occurs in the ticket's text, ignoring case; an omitted or empty field
  imposes no constraint. The text that \<open>search\<close> is matched against is the one the
  service builds: the five fields joined with single spaces.
\<close>

definition spec_in_set :: "'a list option \<Rightarrow> 'a \<Rightarrow> bool" where
  "spec_in_set field v = (case field of None \<Rightarrow> True | Some xs \<Rightarrow> xs = [] \<or> v \<in> set xs)"

definition spec_contains :: "string option \<Rightarrow> string \<Rightarrow> bool" where
  "spec_contains field text =
     (case field of None \<Rightarrow> True
      | Some s \<Rightarrow> s = [] \<or> sublist (toLowerCase s) (toLowerCase text))"

text \<open>All the fields together, combined with logical AND.\<close>

definition spec_satisfies :: "TicketFilters \<Rightarrow> Ticket \<Rightarrow> bool" where
  "spec_satisfies f t =
     (spec_in_set (f_status f) (status t)
      \<and> spec_in_set (f_priority f) (priority t)
      \<and> spec_in_set (f_category f) (category t)
      \<and> spec_in_set (f_csamName f) (csamName t)
      \<and> spec_contains (f_customerName f) (customerName t)
      \<and> (case f_assignedTo f of None \<Rightarrow> True | Some s \<Rightarrow> s = [] \<or> assignedTo t = Some s)
      \<and> (case f_tags f of None \<Rightarrow> True | Some xs \<Rightarrow> xs = [] \<or> set xs \<inter> set (tags t) \<noteq> {})
      \<and> spec_contains (f_search f)
            (join '' '' [title t, description t, ticketId t, customerName t, csamName t]))"

section \<open>Concrete inputs\<close>

text \<open>The filter object with no key, and the one whose every key is empty.\<close>

definition no_filters :: TicketFilters where
  "no_filters =
     \<lparr>f_status = None, f_priority = None, f_category = None, f_csamName = None,
      f_customerName = None, f_assignedTo = None, f_tags = None, f_search = None\<rparr>"

definition empty_filters :: TicketFilters where
  "empty_filters =
     \<lparr>f_status = Some [], f_priority = Some [], f_category = Some [], f_csamName = Some [],
      f_customerName = Some [], f_assignedTo = Some [], f_tags = Some [], f_search = Some []\<rparr>"

text \<open>The create input with no key.\<close>

definition no_input :: TicketCreateInput where
  "no_input =
     \<lparr>c_ticketId = None, c_title = None, c_description = None, c_priority = None,
      c_status = None, c_category = None, c_deadline = None, c_csamName = None,
      c_tpid = None, c_agreementId = None, c_customerName = None, c_customerType = None,
      c_notes = None, c_subtasks = None, c_assignedTo = None, c_tags = None\<rparr>"

text \<open>
  An environment in which the network works, and one in which \<open>fetch\<close> rejects; the
  world at the start: the controller's initial array, nothing sent, the hook's initial
  state.
\<close>

definition env_ok :: env where
  "env_ok = \<lparr>fetch_fails = None, generateId = ''mhi3k2p07x9q2b4'',
     now_deadline = 1793620800000, now_createdAt = 1793620800000,
     now_updatedAt = 1793620800000, now_completedAt = 1793620800000,
     now_client = 1793620799000\<rparr>"

definition env_down :: env where
  "env_down = env_ok\<lparr>fetch_fails := Some ''Failed to fetch''\<rparr>"

definition world0 :: world where
  "world0 = \<lparr>backend = initial_tickets, wire = [],
     hook = \<lparr>tickets = [], loading = True, error = None\<rparr>\<rparr>"

text \<open>A list of four subtasks, two of them completed.\<close>

definition four_subtasks :: "Subtask list" where
  "four_subtasks =
     [\<lparr>s_id = Some ''a'', s_text = ''design'', s_completed = True, s_completedAt = Some 1762000000000\<rparr>,
      \<lparr>s_id = Some ''b'', s_text = ''build'', s_completed = False, s_completedAt = None\<rparr>,
      \<lparr>s_id = Some ''c'', s_text = ''test'', s_completed = True, s_completedAt = Some 1762000500000\<rparr>,
      \<lparr>s_id = Some ''d'', s_text = ''ship'', s_completed = False, s_completedAt = None\<rparr>]"

section \<open>Lists: \<open>findIndex\<close>, \<open>find\<close> and assignment by index\<close>

lemma findIndex_Some:
  "findIndex p xs = Some k \<Longrightarrow> k < length xs \<and> p (xs ! k) \<and> (\<forall>j<k. \<not> p (xs ! j))"
proof (induction xs arbitrary: k)
  case Nil
  then show ?case by simp
next
  case (Cons x xs)
  show ?case
  proof (cases "p x")
    case True
    with Cons.prems show ?thesis by simp
  next
    case False
    with Cons.prems obtain k' where k': "findIndex p xs = Some k'" "k = Suc k'"
      by (auto split: option.splits)
    from Cons.IH [OF k'(1)] False k'(2) show ?thesis
      by (auto simp: less_Suc_eq_0_disj)
  qed
qed

lemma find_findIndex:
  "find p xs = (case findIndex p xs of None \<Rightarrow> None | Some k \<Rightarrow> Some (xs ! k))"
  by (induction xs) (auto split: option.splits)

lemma findIndex_update:
  "findIndex p xs = Some k \<Longrightarrow> p y \<Longrightarrow> findIndex p (xs[k := y]) = Some k"
proof (induction xs arbitrary: k)
  case Nil
  then show ?case by simp
next
  case (Cons x xs)
  then show ?case
    by (cases k) (auto split: option.splits if_splits)
qed

lemma find_Some_findIndex:
  "find p xs = Some x \<Longrightarrow> \<exists>k. findIndex p xs = Some k \<and> xs ! k = x"
  by (simp add: find_findIndex split: option.splits)

section \<open>The controller's update\<close>

lemma controller_updateTicket_found:
  assumes "findIndex (\<lambda>t. t_id t = i) ts = Some k"
  shows "snd (controller_updateTicket e i body ts) =
           ts[k := (spread (ts ! k) (body\<lparr>u_id := None, u_createdAt := None\<rparr>))
                \<lparr>updatedAt := now_updatedAt e,
                 completedAt := (if u_status body = Some COMPLETED then Some (now_completedAt e)
                                 else completedAt (ts ! k))\<rparr>]"
  using assms by (simp add: controller_updateTicket_def Let_def)

text \<open>The ticket stored under an id after an update of that id.\<close>

lemma stored_after_update:
  assumes "find (\<lambda>t. t_id t = i) ts = Some old"
  shows "find (\<lambda>t. t_id t = i) (snd (controller_updateTicket e i body ts)) =
           Some ((spread old (body\<lparr>u_id := None, u_createdAt := None\<rparr>))
                \<lparr>updatedAt := now_updatedAt e,
                 completedAt := (if u_status body = Some COMPLETED then Some (now_completedAt e)
                                 else completedAt old)\<rparr>)"
proof -
  from assms obtain k where k: "findIndex (\<lambda>t. t_id t = i) ts = Some k" "ts ! k = old"
    using find_Some_findIndex by fastforce
  from findIndex_Some [OF k(1)] have lt: "k < length ts" and idk: "t_id (ts ! k) = i"
    by simp_all
  let ?new = "(spread old (body\<lparr>u_id := None, u_createdAt := None\<rparr>))
                \<lparr>updatedAt := now_updatedAt e,
                 completedAt := (if u_status body = Some COMPLETED then Some (now_completedAt e)
                                 else completedAt old)\<rparr>"
  have idn: "t_id ?new = i"
    using idk k(2) by (simp add: spread_def override_def)
  have upd: "snd (controller_updateTicket e i body ts) = ts[k := ?new]"
    using controller_updateTicket_found [OF k(1)] k(2) by simp
  have "findIndex (\<lambda>t. t_id t = i) (ts[k := ?new]) = Some k"
    using k(1) idn by (rule findIndex_update)
  then have "find (\<lambda>t. t_id t = i) (ts[k := ?new]) = Some ?new"
    using lt by (simp add: find_findIndex)
  with upd show ?thesis by simp
qed

lemma find_initial_1: "find (\<lambda>t. t_id t = ''1'') initial_tickets = Some (initial_tickets ! 0)"
  by code_simp

text \<open>
  C1. When a ticket is stored under an id, an update of that id whose payload sets the
  status to COMPLETED leaves a stored ticket with \<open>completedAt\<close> set (to the server's
  clock), and a following update whose payload does not set the status to COMPLETED
  leaves that \<open>completedAt\<close> as it is.
\<close>

theorem completed_update_sets_completedAt:
  assumes "find (\<lambda>t. t_id t = i) ts = Some old"
    and "u_status b1 = Some COMPLETED"
    and "u_status b2 \<noteq> Some COMPLETED"
  shows "\<exists>t1 t2.
           find (\<lambda>t. t_id t = i) (snd (controller_updateTicket e1 i b1 ts)) = Some t1
         \<and> completedAt t1 = Some (now_completedAt e1)
         \<and> completedAt t1 \<noteq> None
         \<and> find (\<lambda>t. t_id t = i)
              (snd (controller_updateTicket e2 i b2 (snd (controller_updateTicket e1 i b1 ts))))
             = Some t2
         \<and> completedAt t2 = completedAt t1"
proof -
  from stored_after_update [OF assms(1), of e1 b1] assms(2)
  obtain t1 where t1: "find (\<lambda>t. t_id t = i) (snd (controller_updateTicket e1 i b1 ts)) = Some t1"
      "completedAt t1 = Some (now_completedAt e1)"
    by simp
  from stored_after_update [OF t1(1), of e2 b2] assms(3)
  obtain t2 where t2: "find (\<lambda>t. t_id t = i)
        (snd (controller_updateTicket e2 i b2 (snd (controller_updateTicket e1 i b1 ts)))) = Some t2"
      "completedAt t2 = completedAt t1"
    by simp
  from t1 t2 show ?thesis by auto
qed

theorem completed_update_sets_completedAt_witness:
  "find (\<lambda>t. t_id t = ''1'') initial_tickets = Some (initial_tickets ! 0)
   \<and> u_status (no_update\<lparr>u_status := Some COMPLETED\<rparr>) = Some COMPLETED
   \<and> u_status (no_update\<lparr>u_status := Some ACTIVE\<rparr>) \<noteq> Some COMPLETED
   \<and> (\<exists>t1 t2.
         find (\<lambda>t. t_id t = ''1'')
           (snd (controller_updateTicket env_ok ''1'' (no_update\<lparr>u_status := Some COMPLETED\<rparr>)
              initial_tickets)) = Some t1
       \<and> completedAt t1 = Some (now_completedAt env_ok)
       \<and> completedAt t1 \<noteq> None
       \<and> find (\<lambda>t. t_id t = ''1'')
           (snd (controller_updateTicket env_ok ''1'' (no_update\<lparr>u_status := Some ACTIVE\<rparr>)
              (snd (controller_updateTicket env_ok ''1'' (no_update\<lparr>u_status := Some COMPLETED\<rparr>)
                 initial_tickets)))) = Some t2
       \<and> completedAt t2 = completedAt t1)"
proof -
  have h2: "u_status (no_update\<lparr>u_status := Some COMPLETED\<rparr>) = Some COMPLETED"
    by simp
  have h3: "u_status (no_update\<lparr>u_status := Some ACTIVE\<rparr>) \<noteq> Some COMPLETED"
    by simp
  from completed_update_sets_completedAt [OF find_initial_1 h2 h3, of env_ok env_ok]
  show ?thesis using find_initial_1 h2 h3 by (intro conjI)
qed

lemma update_ignores_id_createdAt:
  "controller_updateTicket e i (body\<lparr>u_id := a, u_createdAt := b\<rparr>) ts
     = controller_updateTicket e i body ts"
  by (simp add: controller_updateTicket_def Let_def spread_def split: option.split)

text \<open>
  C6. The controller's update gives the same result with the keys \<open>id\<close> and
  \<open>createdAt\<close> removed from the payload, so they are stripped before the update is
  applied; the ticket stored under the id afterwards has the id and the creation time it
  had, and every field whose key the payload does not name is as it was (\<open>updatedAt\<close>
  and \<open>completedAt\<close> apart, which the server sets).
\<close>

theorem update_keeps_id_and_createdAt:
  assumes "find (\<lambda>t. t_id t = i) ts = Some old"
  shows "controller_updateTicket e i body ts
           = controller_updateTicket e i (body\<lparr>u_id := None, u_createdAt := None\<rparr>) ts
     \<and> (\<exists>new. find (\<lambda>t. t_id t = i) (snd (controller_updateTicket e i body ts)) = Some new
       \<and> t_id new = t_id old
       \<and> createdAt new = createdAt old
       \<and> (u_ticketId body = None \<longrightarrow> ticketId new = ticketId old)
       \<and> (u_title body = None \<longrightarrow> title new = title old)
       \<and> (u_description body = None \<longrightarrow> description new = description old)
       \<and> (u_deadline body = None \<longrightarrow> deadline new = deadline old)
       \<and> (u_priority body = None \<longrightarrow> priority new = priority old)
       \<and> (u_category body = None \<longrightarrow> category new = category old)
       \<and> (u_status body = None \<longrightarrow> status new = status old)
       \<and> (u_csamName body = None \<longrightarrow> csamName new = csamName old)
       \<and> (u_tpid body = None \<longrightarrow> tpid new = tpid old)
       \<and> (u_agreementId body = None \<longrightarrow> agreementId new = agreementId old)
       \<and> (u_customerName body = None \<longrightarrow> customerName new = customerName old)
       \<and> (u_customerType body = None \<longrightarrow> customerType new = customerType old)
       \<and> (u_notes body = None \<longrightarrow> notes_t new = notes_t old)
       \<and> (u_subtasks body = None \<longrightarrow> subtasks new = subtasks old)
       \<and> (u_assignedTo body = None \<longrightarrow> assignedTo new = assignedTo old)
       \<and> (u_tags body = None \<longrightarrow> tags new = tags old))"
proof -
  have strip: "controller_updateTicket e i body ts
           = controller_updateTicket e i (body\<lparr>u_id := None, u_createdAt := None\<rparr>) ts"
    by (simp only: update_ignores_id_createdAt)
  have "\<exists>new. find (\<lambda>t. t_id t = i) (snd (controller_updateTicket e i body ts)) = Some new
       \<and> t_id new = t_id old
       \<and> createdAt new = createdAt old
       \<and> (u_ticketId body = None \<longrightarrow> ticketId new = ticketId old)
       \<and> (u_title body = None \<longrightarrow> title new = title old)
       \<and> (u_description body = None \<longrightarrow> description new = description old)
       \<and> (u_deadline body = None \<longrightarrow> deadline new = deadline old)
       \<and> (u_priority body = None \<longrightarrow> priority new = priority old)
       \<and> (u_category body = None \<longrightarrow> category new = category old)
       \<and> (u_status body = None \<longrightarrow> status new = status old)
       \<and> (u_csamName body = None \<longrightarrow> csamName new = csamName old)
       \<and> (u_tpid body = None \<longrightarrow> tpid new = tpid old)
       \<and> (u_agreementId body = None \<longrightarrow> agreementId new = agreementId old)
       \<and> (u_customerName body = None \<longrightarrow> customerName new = customerName old)
       \<and> (u_customerType body = None \<longrightarrow> customerType new = customerType old)
       \<and> (u_notes body = None \<longrightarrow> notes_t new = notes_t old)
       \<and> (u_subtasks body = None \<longrightarrow> subtasks new = subtasks old)
       \<and> (u_assignedTo body = None \<longrightarrow> assignedTo new = assignedTo old)
       \<and> (u_tags body = None \<longrightarrow> tags new = tags old)"
    unfolding stored_after_update [OF assms, of e body]
    by (simp add: spread_def override_def)
  with strip show ?thesis by (rule conjI)
qed

theorem update_keeps_id_and_createdAt_witness:
  "find (\<lambda>t. t_id t = ''1'') initial_tickets = Some (initial_tickets ! 0)
   \<and> (\<exists>new. find (\<lambda>t. t_id t = ''1'')
          (snd (controller_updateTicket env_ok ''1''
             (no_update\<lparr>u_id := Some ''9'', u_createdAt := Some 0, u_title := Some ''New title''\<rparr>)
             initial_tickets)) = Some new
        \<and> t_id new = t_id (initial_tickets ! 0)
        \<and> createdAt new = createdAt (initial_tickets ! 0)
        \<and> ticketId new = ticketId (initial_tickets ! 0)
        \<and> description new = description (initial_tickets ! 0)
        \<and> deadline new = deadline (initial_tickets ! 0)
        \<and> priority new = priority (initial_tickets ! 0)
        \<and> category new = category (initial_tickets ! 0)
        \<and> status new = status (initial_tickets ! 0)
        \<and> csamName new = csamName (initial_tickets ! 0)
        \<and> tpid new = tpid (initial_tickets ! 0)
        \<and> agreementId new = agreementId (initial_tickets ! 0)
        \<and> customerName new = customerName (initial_tickets ! 0)
        \<and> customerType new = customerType (initial_tickets ! 0)
        \<and> notes_t new = notes_t (initial_tickets ! 0)
        \<and> subtasks new = subtasks (initial_tickets ! 0)
        \<and> assignedTo new = assignedTo (initial_tickets ! 0)
        \<and> tags new = tags (initial_tickets ! 0))"
  using update_keeps_id_and_createdAt [OF find_initial_1, of env_ok
      "no_update\<lparr>u_id := Some ''9'', u_createdAt := Some 0, u_title := Some ''New title''\<rparr>",
      THEN conjunct2] find_initial_1
  by (simp add: no_update_def)

lemma controller_updateTicket_response:
  assumes "findIndex (\<lambda>t. t_id t = i) ts = Some k"
  shows "fst (controller_updateTicket e i body ts) = succeed 200 (snd (controller_updateTicket e i body ts) ! k)"
  using assms findIndex_Some [OF assms]
  by (simp add: controller_updateTicket_def Let_def)

lemma api_updateTicket_ok:
  assumes "fetch_fails e = None" and "u_id td = Some i"
    and "findIndex (\<lambda>t. t_id t = i) (backend w) = Some k"
  shows "api_updateTicket e td w =
     (Inr (snd (controller_updateTicket e i td (backend w)) ! k),
      w\<lparr>wire := wire w @ [PUT (''/api/tickets/'' @ i) (td\<lparr>u_id := None\<rparr>)],
        backend := snd (controller_updateTicket e i td (backend w))\<rparr>)"
proof -
  have same: "controller_updateTicket e i (td\<lparr>u_id := None\<rparr>) (backend w)
      = controller_updateTicket e i td (backend w)"
    by (simp add: controller_updateTicket_def Let_def spread_def split: option.split)
  obtain r ts' where rt: "controller_updateTicket e i td (backend w) = (r, ts')"
    by (cases "controller_updateTicket e i td (backend w)")
  from controller_updateTicket_response [OF assms(3), of e td] rt
  have r: "r = succeed 200 (ts' ! k)" by simp
  show ?thesis
    using assms(1,2) rt r
    by (simp add: api_updateTicket_def apiRequest_def same or_val_def Let_def
        handleResponse_def succeed_def)
qed

lemma find_initial_5: "find (\<lambda>t. t_id t = ''5'') initial_tickets = Some (initial_tickets ! 4)"
  by code_simp

text \<open>
  C10. After an update of a stored ticket, its \<open>completedAt\<close> is the server's clock
  reading exactly when the payload's status is COMPLETED, whatever the ticket's status
  was before, and the value it had otherwise. The same holds through
  \<open>updateTicketStatus\<close>: the client's own time stamp in the payload has no effect.
\<close>

theorem completedAt_follows_payload_status:
  assumes "find (\<lambda>t. t_id t = i) ts = Some old"
  shows "(\<exists>new. find (\<lambda>t. t_id t = i) (snd (controller_updateTicket e i body ts)) = Some new
          \<and> completedAt new = (if u_status body = Some COMPLETED then Some (now_completedAt e)
                                else completedAt old))
       \<and> (fetch_fails e = None \<and> i \<noteq> [] \<and> backend w = ts \<longrightarrow>
           (\<exists>new. find (\<lambda>t. t_id t = i) (backend (snd (updateTicketStatus e i st w))) = Some new
              \<and> completedAt new = (if st = COMPLETED then Some (now_completedAt e)
                                    else completedAt old)))"
proof (intro conjI impI)
  show "\<exists>new. find (\<lambda>t. t_id t = i) (snd (controller_updateTicket e i body ts)) = Some new
          \<and> completedAt new = (if u_status body = Some COMPLETED then Some (now_completedAt e)
                                else completedAt old)"
    unfolding stored_after_update [OF assms, of e body] by simp
next
  assume a: "fetch_fails e = None \<and> i \<noteq> [] \<and> backend w = ts"
  let ?td = "no_update\<lparr>u_id := Some i, u_status := Some st,
                  u_completedAt := (if st = COMPLETED then Some (Some (now_client e)) else None)\<rparr>"
  from assms obtain k where k: "findIndex (\<lambda>t. t_id t = i) ts = Some k"
    using find_Some_findIndex by fastforce
  have eq: "backend (snd (updateTicketStatus e i st w)) = snd (controller_updateTicket e i ?td ts)"
    using a k by (simp add: updateTicketStatus_def service_updateTicket_def truthy_def
        api_updateTicket_ok [where i = i and k = k])
  show "\<exists>new. find (\<lambda>t. t_id t = i) (backend (snd (updateTicketStatus e i st w))) = Some new
              \<and> completedAt new = (if st = COMPLETED then Some (now_completedAt e)
                                    else completedAt old)"
    unfolding eq stored_after_update [OF assms, of e ?td] by simp
qed


theorem completedAt_follows_payload_status_witness:
  "find (\<lambda>t. t_id t = ''5'') initial_tickets = Some (initial_tickets ! 4)
   \<and> status (initial_tickets ! 4) = COMPLETED
   \<and> completedAt (initial_tickets ! 4) = Some 1763078400000
   \<and> fetch_fails env_ok = None \<and> ''5'' \<noteq> [] \<and> backend world0 = initial_tickets
   \<and> (\<exists>new. find (\<lambda>t. t_id t = ''5'')
          (snd (controller_updateTicket env_ok ''5'' (no_update\<lparr>u_status := Some COMPLETED\<rparr>)
             initial_tickets)) = Some new
        \<and> completedAt new = Some 1793620800000)
   \<and> (\<exists>new. find (\<lambda>t. t_id t = ''5'')
          (backend (snd (updateTicketStatus env_ok ''5'' COMPLETED world0))) = Some new
        \<and> completedAt new = Some 1793620800000)"
proof -
  have a: "status (initial_tickets ! 4) = COMPLETED"
    "completedAt (initial_tickets ! 4) = Some 1763078400000"
    by (simp_all add: initial_tickets_def)
  have b: "fetch_fails env_ok = None" "backend world0 = initial_tickets"
    "now_completedAt env_ok = 1793620800000"
    by (simp_all add: env_ok_def world0_def)
  from completedAt_follows_payload_status [OF find_initial_5, of env_ok
      "no_update\<lparr>u_status := Some COMPLETED\<rparr>" world0 COMPLETED]
  show ?thesis using find_initial_5 a b by simp
qed

section \<open>Derived metadata: the completion percentage\<close>

lemma completed_le_total: "completedSubtasksCount t \<le> totalSubtasksCount t"
  by (simp add: completedSubtasksCount_def totalSubtasksCount_def)

text \<open>
  C9. The completion percentage lies between 0 and 100 and is the number of completed
  subtasks over the number of subtasks, times 100; it is 0 for a ticket with no
  subtasks, and 50 for a ticket with 2 of 4 subtasks completed.
\<close>

theorem completionPercentage_of_subtasks:
  "0 \<le> completionPercentage t \<and> completionPercentage t \<le> 100
   \<and> completionPercentage t * of_nat (totalSubtasksCount t)
        = 100 * of_nat (completedSubtasksCount t)
   \<and> (subtasks t = [] \<longrightarrow> completionPercentage t = 0)
   \<and> (totalSubtasksCount t = 4 \<and> completedSubtasksCount t = 2 \<longrightarrow> completionPercentage t = 50)"
proof -
  have range: "0 \<le> completionPercentage t \<and> completionPercentage t \<le> 100"
    using completed_le_total [of t] by (simp add: completionPercentage_def divide_le_eq)
  have prod: "completionPercentage t * of_nat (totalSubtasksCount t)
        = 100 * of_nat (completedSubtasksCount t)"
    using completed_le_total [of t] by (simp add: completionPercentage_def)
  have none: "subtasks t = [] \<longrightarrow> completionPercentage t = 0"
    by (simp add: completionPercentage_def totalSubtasksCount_def)
  have half: "totalSubtasksCount t = 4 \<and> completedSubtasksCount t = 2 \<longrightarrow> completionPercentage t = 50"
    by (simp add: completionPercentage_def)
  from range prod none half show ?thesis by (intro conjI) simp_all
qed

theorem completionPercentage_of_subtasks_witness:
  "totalSubtasksCount ((initial_tickets ! 0)\<lparr>subtasks := four_subtasks\<rparr>) = 4
   \<and> completedSubtasksCount ((initial_tickets ! 0)\<lparr>subtasks := four_subtasks\<rparr>) = 2
   \<and> completionPercentage ((initial_tickets ! 0)\<lparr>subtasks := four_subtasks\<rparr>) = 50
   \<and> subtasks (initial_tickets ! 0) = []
   \<and> completionPercentage (initial_tickets ! 0) = 0"
proof -
  have a: "totalSubtasksCount ((initial_tickets ! 0)\<lparr>subtasks := four_subtasks\<rparr>) = 4"
    by (simp add: totalSubtasksCount_def four_subtasks_def)
  have b: "completedSubtasksCount ((initial_tickets ! 0)\<lparr>subtasks := four_subtasks\<rparr>) = 2"
    by (simp add: completedSubtasksCount_def four_subtasks_def)
  have c: "subtasks (initial_tickets ! 0) = []"
    by (simp add: initial_tickets_def)
  from completionPercentage_of_subtasks [of "(initial_tickets ! 0)\<lparr>subtasks := four_subtasks\<rparr>"] a b
  have d: "completionPercentage ((initial_tickets ! 0)\<lparr>subtasks := four_subtasks\<rparr>) = 50"
    by simp
  from completionPercentage_of_subtasks [of "initial_tickets ! 0"] c
  have e: "completionPercentage (initial_tickets ! 0) = 0"
    by simp
  from a b c d e show ?thesis by (intro conjI)
qed

section \<open>The filter of \<open>fetchTickets\<close>\<close>

lemma if_chain8:
  "(if c1 then False else if c2 then False else if c3 then False else if c4 then False
    else if c5 then False else if c6 then False else if c7 then False else if c8 then False
    else True)
   = (\<not> c1 \<and> \<not> c2 \<and> \<not> c3 \<and> \<not> c4 \<and> \<not> c5 \<and> \<not> c6 \<and> \<not> c7 \<and> \<not> c8)"
  by simp

lemma spec_in_set_iff:
  "spec_in_set x v \<longleftrightarrow> \<not> (case x of None \<Rightarrow> False | Some xs \<Rightarrow> 0 < length xs \<and> v \<notin> set xs)"
  by (cases x) (auto simp: spec_in_set_def)

lemma spec_contains_iff:
  "spec_contains x text \<longleftrightarrow>
     \<not> (case x of None \<Rightarrow> False
        | Some s \<Rightarrow> s \<noteq> [] \<and> \<not> includes_str (toLowerCase text) (toLowerCase s))"
  by (cases x) (auto simp: spec_contains_def includes_str_def)

lemma spec_assigned_iff:
  "(case x of None \<Rightarrow> True | Some s \<Rightarrow> s = [] \<or> a = Some s) \<longleftrightarrow>
     \<not> (case x of None \<Rightarrow> False | Some s \<Rightarrow> s \<noteq> [] \<and> a \<noteq> Some s)"
  by (cases x) auto

lemma spec_tags_iff:
  "(case x of None \<Rightarrow> True | Some xs \<Rightarrow> xs = [] \<or> set xs \<inter> set ys \<noteq> {}) \<longleftrightarrow>
     \<not> (case x of None \<Rightarrow> False
        | Some xs \<Rightarrow> 0 < length xs \<and> \<not> list_ex (\<lambda>tag. tag \<in> set ys) xs)"
  by (cases x) (auto simp: list_ex_iff)

lemma keepTicket_spec: "keepTicket f t = spec_satisfies f t"
  unfolding keepTicket_def spec_satisfies_def Let_def if_chain8
  by (simp only: spec_in_set_iff spec_contains_iff spec_assigned_iff spec_tags_iff)

lemma api_fetchTickets_ok:
  "fetch_fails e = None \<Longrightarrow>
     api_fetchTickets e w = (Inr (backend w), w\<lparr>wire := wire w @ [GET ''/api/tickets'']\<rparr>)"
  by (simp add: api_fetchTickets_def apiRequest_def controller_getTickets_def succeed_def
      handleResponse_def or_val_def Let_def)

lemma service_fetchTickets_ok:
  assumes "fetch_fails e = None"
  shows "fst (service_fetchTickets e (Some f) w) = Inr (filter (spec_satisfies f) (backend w))"
proof -
  have "keepTicket f = spec_satisfies f"
    by (rule ext) (rule keepTicket_spec)
  with assms show ?thesis
    by (simp add: service_fetchTickets_def api_fetchTickets_ok)
qed

lemma spec_satisfies_empty: "spec_satisfies no_filters t" "spec_satisfies empty_filters t"
  by (simp_all add: spec_satisfies_def spec_in_set_def spec_contains_def no_filters_def
      empty_filters_def)

lemma spec_satisfies_status:
  "spec_satisfies (no_filters\<lparr>f_status := Some [COMPLETED]\<rparr>) t \<longleftrightarrow> status t = COMPLETED"
  by (simp add: spec_satisfies_def spec_in_set_def spec_contains_def no_filters_def)

text \<open>
  C2. When the request succeeds, the filtered fetch returns the tickets of the collection
  that satisfy every provided field, in the order of the collection; with no filter
  object, or with every field omitted or empty, it returns the whole collection; and the
  filter \<open>{status: ["COMPLETED"]}\<close> over tickets with statuses SCHEDULED, COMPLETED,
  COMPLETED returns the second and the third.
\<close>

theorem fetchTickets_filters:
  assumes "fetch_fails e = None"
  shows "fst (service_fetchTickets e (Some f) w) = Inr (filter (spec_satisfies f) (backend w))
       \<and> subseq (filter (spec_satisfies f) (backend w)) (backend w)
       \<and> fst (service_fetchTickets e None w) = Inr (backend w)
       \<and> fst (service_fetchTickets e (Some no_filters) w) = Inr (backend w)
       \<and> fst (service_fetchTickets e (Some empty_filters) w) = Inr (backend w)
       \<and> fst (service_fetchTickets e (Some (no_filters\<lparr>f_status := Some [COMPLETED]\<rparr>))
              (w\<lparr>backend := [a\<lparr>status := SCHEDULED\<rparr>, b\<lparr>status := COMPLETED\<rparr>,
                               c\<lparr>status := COMPLETED\<rparr>]\<rparr>))
           = Inr [b\<lparr>status := COMPLETED\<rparr>, c\<lparr>status := COMPLETED\<rparr>]"
proof (intro conjI)
  show "fst (service_fetchTickets e (Some f) w) = Inr (filter (spec_satisfies f) (backend w))"
    using assms by (rule service_fetchTickets_ok)
  show "subseq (filter (spec_satisfies f) (backend w)) (backend w)"
    by simp
  show "fst (service_fetchTickets e None w) = Inr (backend w)"
    using assms by (simp add: service_fetchTickets_def api_fetchTickets_ok)
  show "fst (service_fetchTickets e (Some no_filters) w) = Inr (backend w)"
    by (simp add: service_fetchTickets_ok [OF assms] spec_satisfies_empty)
  show "fst (service_fetchTickets e (Some empty_filters) w) = Inr (backend w)"
    by (simp add: service_fetchTickets_ok [OF assms] spec_satisfies_empty)
  show "fst (service_fetchTickets e (Some (no_filters\<lparr>f_status := Some [COMPLETED]\<rparr>))
              (w\<lparr>backend := [a\<lparr>status := SCHEDULED\<rparr>, b\<lparr>status := COMPLETED\<rparr>,
                               c\<lparr>status := COMPLETED\<rparr>]\<rparr>))
           = Inr [b\<lparr>status := COMPLETED\<rparr>, c\<lparr>status := COMPLETED\<rparr>]"
    by (simp add: service_fetchTickets_ok [OF assms] spec_satisfies_status)
qed

lemma env_ok_fetch: "fetch_fails env_ok = None"
  by (simp add: env_ok_def)

lemma completed_initial:
  "filter (\<lambda>t. status t = COMPLETED) initial_tickets = [initial_tickets ! 4]"
  by (simp add: initial_tickets_def)

theorem fetchTickets_filters_witness:
  "fetch_fails env_ok = None
   \<and> fst (service_fetchTickets env_ok (Some (no_filters\<lparr>f_status := Some [COMPLETED]\<rparr>)) world0)
       = Inr [initial_tickets ! 4]"
proof -
  from fetchTickets_filters [OF env_ok_fetch, of "no_filters\<lparr>f_status := Some [COMPLETED]\<rparr>" world0]
  have "fst (service_fetchTickets env_ok (Some (no_filters\<lparr>f_status := Some [COMPLETED]\<rparr>)) world0)
      = Inr (filter (spec_satisfies (no_filters\<lparr>f_status := Some [COMPLETED]\<rparr>)) (backend world0))"
    by (rule conjunct1)
  also have "spec_satisfies (no_filters\<lparr>f_status := Some [COMPLETED]\<rparr>) = (\<lambda>t. status t = COMPLETED)"
    by (rule ext) (rule spec_satisfies_status)
  also have "backend world0 = initial_tickets"
    by (simp add: world0_def)
  finally show ?thesis
    using env_ok_fetch by (simp only: completed_initial simp_thms)
qed

lemma toLowerCase_append: "toLowerCase (a @ b) = toLowerCase a @ toLowerCase b"
  by (simp add: toLowerCase_def)

lemma only_search:
  "keepTicket (no_filters\<lparr>f_search := Some s\<rparr>) t \<longleftrightarrow>
     sublist (toLowerCase s)
       (toLowerCase (join '' '' [title t, description t, ticketId t, customerName t, csamName t]))"
proof (cases "s = []")
  case True
  then show ?thesis
    by (simp add: keepTicket_spec spec_satisfies_def spec_in_set_def spec_contains_def
        no_filters_def toLowerCase_def)
next
  case False
  then show ?thesis
    by (simp add: keepTicket_spec spec_satisfies_def spec_in_set_def spec_contains_def
        no_filters_def)
qed

lemma sublist_toLowerCase: "sublist (toLowerCase x) (toLowerCase (p @ x @ q))"
  by (simp only: toLowerCase_append sublist_appendI)

text \<open>
  C7, as amended. A ticket passes the search filter exactly when the search string, in
  lower case, occurs in the lower-case text made of the title, the description, the
  ticket code, the customer name and the CSAM name joined with a single space between
  consecutive fields; the search \<open>payment\<close> matches every ticket whose description
  contains \<open>Payment gateway issue\<close>.
\<close>

theorem search_matches_joined_text:
  "(keepTicket (no_filters\<lparr>f_search := Some s\<rparr>) t \<longleftrightarrow>
     sublist (toLowerCase s)
       (toLowerCase (join '' '' [title t, description t, ticketId t, customerName t, csamName t])))
   \<and> (description t = pre @ ''Payment gateway issue'' @ post \<longrightarrow>
        keepTicket (no_filters\<lparr>f_search := Some ''payment''\<rparr>) t)"
proof -
  have low: "toLowerCase ''Payment'' = toLowerCase ''payment''"
    by code_simp
  have ex: "keepTicket (no_filters\<lparr>f_search := Some ''payment''\<rparr>) t"
    if d: "description t = pre @ ''Payment gateway issue'' @ post"
  proof -
    have "join '' '' [title t, description t, ticketId t, customerName t, csamName t]
        = (title t @ '' '' @ pre) @ ''Payment'' @
          ('' gateway issue'' @ post @ '' '' @ ticketId t @ '' '' @ customerName t @ '' '' @ csamName t)"
      by (simp add: d)
    then have "sublist (toLowerCase ''Payment'')
       (toLowerCase (join '' '' [title t, description t, ticketId t, customerName t, csamName t]))"
      by (simp only: sublist_toLowerCase)
    then show ?thesis
      by (simp only: only_search low)
  qed
  show ?thesis
  proof (intro conjI impI)
    show "keepTicket (no_filters\<lparr>f_search := Some s\<rparr>) t \<longleftrightarrow>
     sublist (toLowerCase s)
       (toLowerCase (join '' '' [title t, description t, ticketId t, customerName t, csamName t]))"
      by (rule only_search)
  next
    assume "description t = pre @ ''Payment gateway issue'' @ post"
    then show "keepTicket (no_filters\<lparr>f_search := Some ''payment''\<rparr>) t"
      by (rule ex)
  qed
qed


theorem search_matches_joined_text_witness:
  "description (initial_tickets ! 1) = ''Payment gateway integration issue''
   \<and> keepTicket (no_filters\<lparr>f_search := Some ''PAYMENT gateway''\<rparr>) (initial_tickets ! 1)
   \<and> \<not> keepTicket (no_filters\<lparr>f_search := Some ''PAYMENT gateway''\<rparr>) (initial_tickets ! 0)"
proof -
  have d: "description (initial_tickets ! 1) = ''Payment gateway integration issue''"
    by (simp add: initial_tickets_def)
  have yes: "sublist (toLowerCase ''PAYMENT gateway'')
       (toLowerCase (join '' '' [title (initial_tickets ! 1), description (initial_tickets ! 1),
          ticketId (initial_tickets ! 1), customerName (initial_tickets ! 1),
          csamName (initial_tickets ! 1)]))"
    by code_simp
  have no: "\<not> sublist (toLowerCase ''PAYMENT gateway'')
       (toLowerCase (join '' '' [title (initial_tickets ! 0), description (initial_tickets ! 0),
          ticketId (initial_tickets ! 0), customerName (initial_tickets ! 0),
          csamName (initial_tickets ! 0)]))"
    by code_simp
  from search_matches_joined_text [of "''PAYMENT gateway''" "initial_tickets ! 1", THEN conjunct1]
    search_matches_joined_text [of "''PAYMENT gateway''" "initial_tickets ! 0", THEN conjunct1]
    yes no d
  show ?thesis by (simp only: simp_thms)
qed

text \<open>
  C7 as stated fails: the text that is searched is not the plain concatenation of the
  fields. The first ticket's title ends in \<open>authentication\<close> and its description
  starts with \<open>Add\<close>; the search \<open>authentication add\<close> matches it, and the
  concatenation does not contain that string.
\<close>

theorem search_concatenation_counterexample:
  "\<not> (keepTicket (no_filters\<lparr>f_search := Some ''authentication add''\<rparr>) (initial_tickets ! 0) \<longleftrightarrow>
      sublist (toLowerCase ''authentication add'')
        (toLowerCase (title (initial_tickets ! 0) @ description (initial_tickets ! 0)
           @ ticketId (initial_tickets ! 0) @ customerName (initial_tickets ! 0)
           @ csamName (initial_tickets ! 0))))"
  by code_simp


section \<open>The operations of the hook\<close>

lemma apiRequest_hook: "hook (snd (apiRequest e req handler w)) = hook w"
  by (simp add: apiRequest_def Let_def split: option.split prod.split)

lemma service_fetchTickets_hook: "hook (snd (service_fetchTickets e filters w)) = hook w"
proof -
  obtain r w' where a: "apiRequest e (GET ''/api/tickets'') (\<lambda>ts. (controller_getTickets ts, ts)) w = (r, w')"
    by (cases "apiRequest e (GET ''/api/tickets'') (\<lambda>ts. (controller_getTickets ts, ts)) w")
  with apiRequest_hook [of e "GET ''/api/tickets''" "\<lambda>ts. (controller_getTickets ts, ts)" w]
  have "hook w' = hook w" by simp
  with a show ?thesis
    by (simp add: service_fetchTickets_def api_fetchTickets_def split: sum.split option.split)
qed

lemma api_createTicket_hook: "hook (snd (api_createTicket e x w)) = hook w"
proof -
  obtain r w' where a: "apiRequest e (POST ''/api/tickets'' x) (controller_createTicket e x) w = (r, w')"
    by (cases "apiRequest e (POST ''/api/tickets'' x) (controller_createTicket e x) w")
  with apiRequest_hook [of e "POST ''/api/tickets'' x" "controller_createTicket e x" w]
  have "hook w' = hook w" by simp
  with a show ?thesis
    by (simp add: api_createTicket_def split: sum.split option.split)
qed

lemma service_createTicket_hook: "hook (snd (service_createTicket e x w)) = hook w"
  by (simp add: service_createTicket_def api_createTicket_hook)

lemma service_updateTicket_hook: "hook (snd (service_updateTicket e u w)) = hook w"
proof -
  let ?i = "or_val (u_id u) ''undefined''"
  let ?req = "PUT (''/api/tickets/'' @ ?i) (u\<lparr>u_id := None\<rparr>)"
  let ?h = "controller_updateTicket e ?i (u\<lparr>u_id := None\<rparr>)"
  obtain r w' where a: "apiRequest e ?req ?h w = (r, w')"
    by (cases "apiRequest e ?req ?h w")
  with apiRequest_hook [of e ?req ?h w]
  have "hook w' = hook w" by simp
  with a have "hook (snd (api_updateTicket e u w)) = hook w"
    by (simp add: api_updateTicket_def Let_def split: sum.split option.split)
  then show ?thesis
    by (simp add: service_updateTicket_def)
qed

lemma service_deleteTicket_hook: "hook (snd (service_deleteTicket e i w)) = hook w"
proof -
  let ?req = "DELETE (''/api/tickets/'' @ i)"
  obtain r w' where a: "apiRequest e ?req (controller_deleteTicket i) w = (r, w')"
    by (cases "apiRequest e ?req (controller_deleteTicket i) w")
  with apiRequest_hook [of e ?req "controller_deleteTicket i" w]
  have "hook w' = hook w" by simp
  with a show ?thesis
    by (simp add: service_deleteTicket_def api_deleteTicket_def split: sum.split)
qed

lemma refreshTickets_failure:
  assumes "fst (service_fetchTickets e None w) = Inl err"
  shows "fst (refreshTickets e w) = Undefined_result
       \<and> tickets (hook (snd (refreshTickets e w))) = tickets (hook w)
       \<and> error (hook (snd (refreshTickets e w))) = Some (message err)"
proof -
  obtain r w' where a: "service_fetchTickets e None w = (r, w')"
    by (cases "service_fetchTickets e None w")
  with service_fetchTickets_hook [of e None w] have h: "hook w' = hook w" by simp
  from a assms have r: "r = Inl err" by simp
  show ?thesis by (simp add: refreshTickets_def a r h)
qed

lemma refreshTickets_result: "fst (refreshTickets e w) = Undefined_result"
  by (cases "service_fetchTickets e None w") (simp add: refreshTickets_def split: sum.split)

lemma addTicket_failure:
  assumes "fst (service_createTicket e x w) = Inl err"
  shows "fst (addTicket e x w) = Null_result
       \<and> tickets (hook (snd (addTicket e x w))) = tickets (hook w)
       \<and> error (hook (snd (addTicket e x w))) = Some (message err)"
proof -
  obtain r w' where a: "service_createTicket e x w = (r, w')"
    by (cases "service_createTicket e x w")
  with service_createTicket_hook [of e x w] have h: "hook w' = hook w" by simp
  from a assms have r: "r = Inl err" by simp
  show ?thesis by (simp add: addTicket_def a r h)
qed

lemma hook_updateTicket_failure:
  assumes "fst (service_updateTicket e u w) = Inl err"
  shows "fst (hook_updateTicket e u w) = Null_result
       \<and> tickets (hook (snd (hook_updateTicket e u w))) = tickets (hook w)
       \<and> error (hook (snd (hook_updateTicket e u w))) = Some (message err)"
proof -
  obtain r w' where a: "service_updateTicket e u w = (r, w')"
    by (cases "service_updateTicket e u w")
  with service_updateTicket_hook [of e u w] have h: "hook w' = hook w" by simp
  from a assms have r: "r = Inl err" by simp
  show ?thesis by (simp add: hook_updateTicket_def a r h)
qed

lemma hook_deleteTicket_failure:
  assumes "fst (service_deleteTicket e i w) = Inl err"
  shows "fst (hook_deleteTicket e i w) = Boolean_result False
       \<and> tickets (hook (snd (hook_deleteTicket e i w))) = tickets (hook w)
       \<and> error (hook (snd (hook_deleteTicket e i w))) = Some (message err)"
proof -
  obtain r w' where a: "service_deleteTicket e i w = (r, w')"
    by (cases "service_deleteTicket e i w")
  with service_deleteTicket_hook [of e i w] have h: "hook w' = hook w" by simp
  from a assms have r: "r = Inl err" by simp
  show ?thesis by (simp add: hook_deleteTicket_def a r h)
qed

lemma hook_success_results:
  "(fst (service_createTicket e x w) = Inr t \<longrightarrow> fst (addTicket e x w) = Ticket_result t)
   \<and> (fst (service_updateTicket e u w) = Inr t \<longrightarrow> fst (hook_updateTicket e u w) = Ticket_result t)
   \<and> (fst (service_deleteTicket e i w) = Inr () \<longrightarrow> fst (hook_deleteTicket e i w) = Boolean_result True)"
proof (intro conjI impI)
  assume "fst (service_createTicket e x w) = Inr t"
  then show "fst (addTicket e x w) = Ticket_result t"
    by (cases "service_createTicket e x w") (simp add: addTicket_def)
next
  assume "fst (service_updateTicket e u w) = Inr t"
  then show "fst (hook_updateTicket e u w) = Ticket_result t"
    by (cases "service_updateTicket e u w") (simp add: hook_updateTicket_def)
next
  assume "fst (service_deleteTicket e i w) = Inr ()"
  then show "fst (hook_deleteTicket e i w) = Boolean_result True"
    by (cases "service_deleteTicket e i w") (simp add: hook_deleteTicket_def)
qed

text \<open>
  C3, as amended. When the service call of a store operation fails, the operation leaves
  the local collection as it was and puts the error's message into the error slot;
  create and update return \<open>null\<close> and remove returns \<open>false\<close>, where on success they
  return the ticket and \<open>true\<close>. Refresh returns nothing, on success and on failure:
  its failure shows in the error slot only.
\<close>

theorem store_operations_fail_safely:
  "(fst (service_fetchTickets e None w) = Inl err \<longrightarrow>
      fst (refreshTickets e w) = Undefined_result
      \<and> tickets (hook (snd (refreshTickets e w))) = tickets (hook w)
      \<and> error (hook (snd (refreshTickets e w))) = Some (message err))
   \<and> (fst (service_createTicket e x w) = Inl err \<longrightarrow>
      fst (addTicket e x w) = Null_result
      \<and> tickets (hook (snd (addTicket e x w))) = tickets (hook w)
      \<and> error (hook (snd (addTicket e x w))) = Some (message err))
   \<and> (fst (service_updateTicket e u w) = Inl err \<longrightarrow>
      fst (hook_updateTicket e u w) = Null_result
      \<and> tickets (hook (snd (hook_updateTicket e u w))) = tickets (hook w)
      \<and> error (hook (snd (hook_updateTicket e u w))) = Some (message err))
   \<and> (fst (service_deleteTicket e i w) = Inl err \<longrightarrow>
      fst (hook_deleteTicket e i w) = Boolean_result False
      \<and> tickets (hook (snd (hook_deleteTicket e i w))) = tickets (hook w)
      \<and> error (hook (snd (hook_deleteTicket e i w))) = Some (message err))
   \<and> (fst (service_createTicket e x w) = Inr t \<longrightarrow> fst (addTicket e x w) = Ticket_result t)
   \<and> (fst (service_updateTicket e u w) = Inr t \<longrightarrow> fst (hook_updateTicket e u w) = Ticket_result t)
   \<and> (fst (service_deleteTicket e i w) = Inr () \<longrightarrow> fst (hook_deleteTicket e i w) = Boolean_result True)
   \<and> fst (refreshTickets e w) = Undefined_result"
  using refreshTickets_result [of e w] refreshTickets_failure [of e w err] addTicket_failure [of e x w err]
    hook_updateTicket_failure [of e u w err] hook_deleteTicket_failure [of e i w err]
    hook_success_results [of e x w t u i]
  by (intro conjI impI) simp_all


lemma down_fetch: "fst (service_fetchTickets env_down None world0) = Inl (Error ''Failed to fetch'')"
  by code_simp

lemma down_create:
  "fst (service_createTicket env_down (no_input\<lparr>c_ticketId := Some ''TCK-100'', c_title := Some ''X''\<rparr>)
     world0) = Inl (Error ''Failed to fetch'')"
  by code_simp

lemma missing_update:
  "fst (service_updateTicket env_ok (no_update\<lparr>u_id := Some ''77'', u_title := Some ''Y''\<rparr>) world0)
     = Inl (Error ''Ticket not found'')"
  by code_simp

lemma missing_delete:
  "fst (service_deleteTicket env_ok ''77'' world0) = Inl (Error ''Ticket not found'')"
  by code_simp

theorem store_operations_fail_safely_witness:
  "fst (service_fetchTickets env_down None world0) = Inl (Error ''Failed to fetch'')
   \<and> error (hook (snd (refreshTickets env_down world0))) = Some ''Failed to fetch''
   \<and> tickets (hook (snd (refreshTickets env_down world0))) = tickets (hook world0)
   \<and> fst (service_createTicket env_down
        (no_input\<lparr>c_ticketId := Some ''TCK-100'', c_title := Some ''X''\<rparr>) world0)
       = Inl (Error ''Failed to fetch'')
   \<and> fst (addTicket env_down
        (no_input\<lparr>c_ticketId := Some ''TCK-100'', c_title := Some ''X''\<rparr>) world0) = Null_result
   \<and> fst (service_updateTicket env_ok (no_update\<lparr>u_id := Some ''77'', u_title := Some ''Y''\<rparr>) world0)
       = Inl (Error ''Ticket not found'')
   \<and> fst (hook_updateTicket env_ok (no_update\<lparr>u_id := Some ''77'', u_title := Some ''Y''\<rparr>) world0)
       = Null_result
   \<and> fst (service_deleteTicket env_ok ''77'' world0) = Inl (Error ''Ticket not found'')
   \<and> fst (hook_deleteTicket env_ok ''77'' world0) = Boolean_result False
   \<and> error (hook (snd (hook_deleteTicket env_ok ''77'' world0))) = Some ''Ticket not found''"
  using store_operations_fail_safely [of env_down world0 "Error ''Failed to fetch''"
      "no_input\<lparr>c_ticketId := Some ''TCK-100'', c_title := Some ''X''\<rparr>"]
    store_operations_fail_safely [of env_ok world0 "Error ''Ticket not found''" _
      "no_update\<lparr>u_id := Some ''77'', u_title := Some ''Y''\<rparr>" "''77''"]
    down_fetch down_create missing_update missing_delete
  by (simp add: message_def)

text \<open>
  C3 as stated fails for refresh: a refresh that fails (the error slot is set) does not
  return a ticket, a boolean or \<open>null\<close>.
\<close>

theorem refresh_result_counterexample:
  "error (hook (snd (refreshTickets env_down world0))) = Some ''Failed to fetch''
   \<and> fst (refreshTickets env_down world0) = Undefined_result"
  by code_simp

lemma blank_empty: "blank None" "blank (Some [])"
  by (simp_all add: blank_def)

text \<open>
  C4. A create whose title or ticket code is absent or empty fails in the service with
  the validation error, before any request: the hook returns \<open>null\<close>, no request is
  sent, the controller's array and the local collection are as they were, and the error
  slot holds the message.
\<close>

theorem create_without_title_or_code_rejected:
  assumes "c_title x = None \<or> c_title x = Some [] \<or> c_ticketId x = None \<or> c_ticketId x = Some []"
  shows "fst (service_createTicket e x w)
           = Inl (Error (if blank (c_title x) then ''Ticket title is required''
                         else ''Ticket ID is required''))
       \<and> fst (addTicket e x w) = Null_result
       \<and> wire (snd (addTicket e x w)) = wire w
       \<and> backend (snd (addTicket e x w)) = backend w
       \<and> tickets (hook (snd (addTicket e x w))) = tickets (hook w)
       \<and> error (hook (snd (addTicket e x w)))
           = Some (if blank (c_title x) then ''Ticket title is required''
                   else ''Ticket ID is required'')"
proof -
  from assms have b: "blank (c_title x) \<or> blank (c_ticketId x)"
    using blank_empty by auto
  then have s: "service_createTicket e x w
      = (Inl (Error (if blank (c_title x) then ''Ticket title is required''
                         else ''Ticket ID is required'')), w)"
    by (auto simp: service_createTicket_def)
  show ?thesis
    unfolding addTicket_def s by (simp add: message_def)
qed

theorem create_without_title_or_code_rejected_witness:
  "c_title (no_input\<lparr>c_ticketId := Some ''TCK-100'', c_title := Some []\<rparr>) = Some []
   \<and> fst (addTicket env_ok (no_input\<lparr>c_ticketId := Some ''TCK-100'', c_title := Some []\<rparr>) world0)
       = Null_result
   \<and> wire (snd (addTicket env_ok (no_input\<lparr>c_ticketId := Some ''TCK-100'', c_title := Some []\<rparr>) world0))
       = []
   \<and> backend (snd (addTicket env_ok (no_input\<lparr>c_ticketId := Some ''TCK-100'', c_title := Some []\<rparr>) world0))
       = initial_tickets
   \<and> tickets (hook (snd (addTicket env_ok (no_input\<lparr>c_ticketId := Some ''TCK-100'', c_title := Some []\<rparr>) world0)))
       = []
   \<and> error (hook (snd (addTicket env_ok (no_input\<lparr>c_ticketId := Some ''TCK-100'', c_title := Some []\<rparr>) world0)))
       = Some ''Ticket title is required''"
proof -
  have h: "c_title (no_input\<lparr>c_ticketId := Some ''TCK-100'', c_title := Some []\<rparr>) = Some []"
    by simp
  then have h': "c_title (no_input\<lparr>c_ticketId := Some ''TCK-100'', c_title := Some []\<rparr>) = None
     \<or> c_title (no_input\<lparr>c_ticketId := Some ''TCK-100'', c_title := Some []\<rparr>) = Some []
     \<or> c_ticketId (no_input\<lparr>c_ticketId := Some ''TCK-100'', c_title := Some []\<rparr>) = None
     \<or> c_ticketId (no_input\<lparr>c_ticketId := Some ''TCK-100'', c_title := Some []\<rparr>) = Some []"
    by simp
  have w: "wire world0 = []" "backend world0 = initial_tickets" "tickets (hook world0) = []"
    by (simp_all add: world0_def)
  from create_without_title_or_code_rejected [OF h', of env_ok world0] h w
  show ?thesis by (simp add: blank_def)
qed

section \<open>Create, and the uniqueness of ids and ticket codes\<close>

lemma find_None_ticketId:
  "find (\<lambda>t. ticketId t = c) ts = None \<longleftrightarrow> c \<notin> ticketId ` set ts"
  by (auto simp: find_None_iff)

lemma wire_service_createTicket:
  assumes "\<not> blank (c_title x)" and "\<not> blank (c_ticketId x)"
  shows "wire (snd (service_createTicket e x w))
           = wire w @ [POST ''/api/tickets'' (ticketWithDefaults x)]"
proof -
  let ?req = "POST ''/api/tickets'' (ticketWithDefaults x)"
  let ?h = "controller_createTicket e (ticketWithDefaults x)"
  have "wire (snd (apiRequest e ?req ?h w)) = wire w @ [?req]"
    by (simp add: apiRequest_def Let_def split: option.split prod.split)
  moreover obtain r w' where a: "apiRequest e ?req ?h w = (r, w')"
    by (cases "apiRequest e ?req ?h w")
  ultimately have "wire (snd (api_createTicket e (ticketWithDefaults x) w)) = wire w @ [?req]"
    by (simp add: api_createTicket_def split: sum.split option.split)
  with assms show ?thesis
    by (simp add: service_createTicket_def)
qed

lemma wire_addTicket: "wire (snd (addTicket e x w)) = wire (snd (service_createTicket e x w))"
  by (cases "service_createTicket e x w") (simp add: addTicket_def split: sum.split)

lemma backend_addTicket: "backend (snd (addTicket e x w)) = backend (snd (service_createTicket e x w))"
  by (cases "service_createTicket e x w") (simp add: addTicket_def split: sum.split)

text \<open>The ticket the controller stores for the create input \<open>{ticketId, title}\<close>.\<close>

lemma controller_createTicket_fresh:
  assumes "c_ticketId b = Some c" and "c \<noteq> []" and "truthy (c_title b)"
    and "c \<notin> ticketId ` set ts"
  shows "\<exists>t. snd (controller_createTicket e b ts) = ts @ [t]
          \<and> fst (controller_createTicket e b ts) = succeed 201 t
          \<and> ticketId t = c
          \<and> priority t = or_val (c_priority b) MEDIUM
          \<and> status t = or_val (c_status b) SCHEDULED"
proof -
  have "find (\<lambda>t. Some (ticketId t) = c_ticketId b) ts = None"
    using assms(1,4) by (simp add: find_None_ticketId)
  with assms(1,2,3) show ?thesis
    by (simp add: controller_createTicket_def truthy_def or_str_def Let_def)
qed

lemma backend_api_createTicket:
  assumes "fetch_fails e = None"
  shows "backend (snd (api_createTicket e b w)) = snd (controller_createTicket e b (backend w))"
proof -
  obtain r ts' where c: "controller_createTicket e b (backend w) = (r, ts')"
    by (cases "controller_createTicket e b (backend w)")
  with assms show ?thesis
    by (simp add: api_createTicket_def apiRequest_def Let_def handleResponse_def
        split: sum.split option.split)
qed

lemma refresh_ok:
  assumes "fetch_fails e = None"
  shows "tickets (hook (snd (refreshTickets e w))) = backend w"
  using assms by (simp add: refreshTickets_def service_fetchTickets_def api_fetchTickets_ok)

text \<open>
  C5. A create whose title and ticket code are not blank sends one POST request whose
  body has the title and the code of the input, the given or else the default priority
  MEDIUM and status SCHEDULED, and the given or else empty notes, tags and subtasks. When
  the requests succeed and no stored ticket has the code TCK-100, creating
  \<open>{ticketId: "TCK-100", title: "X"}\<close> and refreshing yields a local collection with a
  ticket of code TCK-100, priority MEDIUM and status SCHEDULED.
\<close>

theorem create_applies_defaults:
  assumes "fetch_fails e = None" and "fetch_fails e' = None"
  shows "(\<not> blank (c_title x) \<and> \<not> blank (c_ticketId x) \<longrightarrow>
           (\<exists>body. wire (snd (addTicket e x w)) = wire w @ [POST ''/api/tickets'' body]
              \<and> c_ticketId body = c_ticketId x \<and> c_title body = c_title x
              \<and> c_priority body = Some (case c_priority x of None \<Rightarrow> MEDIUM | Some p \<Rightarrow> p)
              \<and> c_status body = Some (case c_status x of None \<Rightarrow> SCHEDULED | Some s \<Rightarrow> s)
              \<and> c_notes body = Some (case c_notes x of None \<Rightarrow> [] | Some n \<Rightarrow> n)
              \<and> c_tags body = Some (case c_tags x of None \<Rightarrow> [] | Some n \<Rightarrow> n)
              \<and> c_subtasks body = Some (case c_subtasks x of None \<Rightarrow> [] | Some n \<Rightarrow> n)))
       \<and> (''TCK-100'' \<notin> ticketId ` set (backend w) \<longrightarrow>
           (\<exists>t \<in> set (tickets (hook (snd (refreshTickets e'
                 (snd (addTicket e (no_input\<lparr>c_ticketId := Some ''TCK-100'', c_title := Some ''X''\<rparr>)
                    w)))))).
              ticketId t = ''TCK-100'' \<and> priority t = MEDIUM \<and> status t = SCHEDULED))"
proof (intro conjI impI)
  assume nb: "\<not> blank (c_title x) \<and> \<not> blank (c_ticketId x)"
  then have "wire (snd (addTicket e x w)) = wire w @ [POST ''/api/tickets'' (ticketWithDefaults x)]"
    by (simp add: wire_addTicket wire_service_createTicket)
  then show "\<exists>body. wire (snd (addTicket e x w)) = wire w @ [POST ''/api/tickets'' body]
              \<and> c_ticketId body = c_ticketId x \<and> c_title body = c_title x
              \<and> c_priority body = Some (case c_priority x of None \<Rightarrow> MEDIUM | Some p \<Rightarrow> p)
              \<and> c_status body = Some (case c_status x of None \<Rightarrow> SCHEDULED | Some s \<Rightarrow> s)
              \<and> c_notes body = Some (case c_notes x of None \<Rightarrow> [] | Some n \<Rightarrow> n)
              \<and> c_tags body = Some (case c_tags x of None \<Rightarrow> [] | Some n \<Rightarrow> n)
              \<and> c_subtasks body = Some (case c_subtasks x of None \<Rightarrow> [] | Some n \<Rightarrow> n)"
    by (simp add: ticketWithDefaults_def or_val_def)
next
  let ?x = "no_input\<lparr>c_ticketId := Some ''TCK-100'', c_title := Some ''X''\<rparr>"
  assume fresh: "''TCK-100'' \<notin> ticketId ` set (backend w)"
  have nb: "\<not> blank (c_title ?x)" "\<not> blank (c_ticketId ?x)"
    by (simp_all add: blank_def trim_def isWhiteSpace_def)
  have b: "c_ticketId (ticketWithDefaults ?x) = Some ''TCK-100''"
    "truthy (c_title (ticketWithDefaults ?x))"
    "c_priority (ticketWithDefaults ?x) = Some MEDIUM"
    "c_status (ticketWithDefaults ?x) = Some SCHEDULED"
    by (simp_all add: ticketWithDefaults_def no_input_def truthy_def or_val_def)
  from controller_createTicket_fresh [OF b(1) _ b(2) fresh, of e]
  obtain t where t: "snd (controller_createTicket e (ticketWithDefaults ?x) (backend w)) = backend w @ [t]"
    "ticketId t = ''TCK-100''" "priority t = MEDIUM" "status t = SCHEDULED"
    using b(3,4) by (auto simp: or_val_def)
  have "backend (snd (addTicket e ?x w)) = backend w @ [t]"
    using nb t(1) assms(1)
    by (simp add: backend_addTicket service_createTicket_def backend_api_createTicket)
  then have "tickets (hook (snd (refreshTickets e' (snd (addTicket e ?x w))))) = backend w @ [t]"
    by (simp add: refresh_ok [OF assms(2)])
  with t(2,3,4)
  show "\<exists>t \<in> set (tickets (hook (snd (refreshTickets e' (snd (addTicket e ?x w)))))).
              ticketId t = ''TCK-100'' \<and> priority t = MEDIUM \<and> status t = SCHEDULED"
    by simp
qed


lemma fresh_code: "''TCK-100'' \<notin> ticketId ` set (backend world0)"
  by (simp add: world0_def initial_tickets_def)

lemma not_blank_X: "\<not> blank (Some ''X'')" "\<not> blank (Some ''TCK-100'')"
  by (simp_all add: blank_def trim_def isWhiteSpace_def)

theorem create_applies_defaults_witness:
  "fetch_fails env_ok = None
   \<and> \<not> blank (Some ''X'') \<and> \<not> blank (Some ''TCK-100'')
   \<and> ''TCK-100'' \<notin> ticketId ` set (backend world0)
   \<and> (\<exists>body. wire (snd (addTicket env_ok
               (no_input\<lparr>c_ticketId := Some ''TCK-100'', c_title := Some ''X''\<rparr>) world0))
             = wire world0 @ [POST ''/api/tickets'' body]
        \<and> c_ticketId body = Some ''TCK-100'' \<and> c_title body = Some ''X''
        \<and> c_priority body = Some MEDIUM \<and> c_status body = Some SCHEDULED
        \<and> c_notes body = Some [] \<and> c_tags body = Some [] \<and> c_subtasks body = Some [])
   \<and> (\<exists>t \<in> set (tickets (hook (snd (refreshTickets env_ok
           (snd (addTicket env_ok (no_input\<lparr>c_ticketId := Some ''TCK-100'', c_title := Some ''X''\<rparr>)
              world0)))))).
         ticketId t = ''TCK-100'' \<and> priority t = MEDIUM \<and> status t = SCHEDULED)"
proof -
  let ?x = "no_input\<lparr>c_ticketId := Some ''TCK-100'', c_title := Some ''X''\<rparr>"
  have f: "c_title ?x = Some ''X''" "c_ticketId ?x = Some ''TCK-100''"
    "c_priority ?x = None" "c_status ?x = None" "c_notes ?x = None" "c_tags ?x = None"
    "c_subtasks ?x = None"
    by (simp_all add: no_input_def)
  have nb: "\<not> blank (c_title ?x) \<and> \<not> blank (c_ticketId ?x)"
    using not_blank_X by (simp only: f simp_thms)
  note inst = create_applies_defaults [OF env_ok_fetch env_ok_fetch, of ?x world0]
  from inst [THEN conjunct1, THEN mp, OF nb]
  have a: "\<exists>body. wire (snd (addTicket env_ok ?x world0)) = wire world0 @ [POST ''/api/tickets'' body]
        \<and> c_ticketId body = Some ''TCK-100'' \<and> c_title body = Some ''X''
        \<and> c_priority body = Some MEDIUM \<and> c_status body = Some SCHEDULED
        \<and> c_notes body = Some [] \<and> c_tags body = Some [] \<and> c_subtasks body = Some []"
    by (simp only: f option.case)
  from inst [THEN conjunct2, THEN mp, OF fresh_code]
  have b: "\<exists>t \<in> set (tickets (hook (snd (refreshTickets env_ok (snd (addTicket env_ok ?x world0)))))).
         ticketId t = ''TCK-100'' \<and> priority t = MEDIUM \<and> status t = SCHEDULED" .
  from env_ok_fetch not_blank_X fresh_code a b show ?thesis by (intro conjI)
qed

text \<open>
  C8. The ids and the ticket codes of the initial collection are distinct. The update of
  ticket 2 with the payload \<open>{ticketId: "TCK-001"}\<close> is accepted, and afterwards the
  controller's array, and the local collection after a refresh, hold two tickets with
  the code TCK-001: the update does not check the code as the create does.
\<close>

theorem update_duplicates_ticket_code:
  "distinct (map ticketId initial_tickets) \<and> distinct (map t_id initial_tickets)
   \<and> \<not> distinct (map ticketId (snd (controller_updateTicket env_ok ''2''
         (no_update\<lparr>u_ticketId := Some ''TCK-001''\<rparr>) initial_tickets)))
   \<and> \<not> distinct (map ticketId (tickets (hook (snd (refreshTickets env_ok
         (snd (hook_updateTicket env_ok (no_update\<lparr>u_id := Some ''2'', u_ticketId := Some ''TCK-001''\<rparr>)
            (snd (refreshTickets env_ok world0)))))))))"
  by code_simp

text \<open>
  The other operations keep the ids and the codes distinct: a create with a code already
  present is rejected and adds nothing, a create with a new code appends one ticket with
  that code, a delete removes one element, and an update keeps every id.
\<close>

lemma create_duplicate_code_rejected:
  assumes "c_ticketId b = Some c" and "c \<in> ticketId ` set ts"
  shows "snd (controller_createTicket e b ts) = ts
       \<and> success (fst (controller_createTicket e b ts)) = False"
proof -
  from assms have "find (\<lambda>t. Some (ticketId t) = c_ticketId b) ts \<noteq> None"
    by (auto simp: find_None_iff)
  then show ?thesis
    by (auto simp: controller_createTicket_def fail_def)
qed

lemma create_keeps_codes_distinct:
  assumes "distinct (map ticketId ts)"
  shows "distinct (map ticketId (snd (controller_createTicket e b ts)))"
proof (cases "truthy (c_ticketId b) \<and> truthy (c_title b)
              \<and> find (\<lambda>t. Some (ticketId t) = c_ticketId b) ts = None")
  case True
  then obtain c where c: "c_ticketId b = Some c" "c \<noteq> []"
    by (auto simp: truthy_def split: option.splits)
  with True have "c \<notin> ticketId ` set ts"
    by (auto simp: find_None_iff)
  from controller_createTicket_fresh [OF c(1) c(2) _ this, of e] True
  obtain t where "snd (controller_createTicket e b ts) = ts @ [t]" "ticketId t = c"
    by auto
  with assms \<open>c \<notin> ticketId ` set ts\<close> show ?thesis by simp
next
  case False
  then have "snd (controller_createTicket e b ts) = ts"
    by (auto simp: controller_createTicket_def)
  with assms show ?thesis by simp
qed

lemma delete_keeps_distinct:
  assumes "distinct (map f ts)"
  shows "distinct (map f (snd (controller_deleteTicket i ts)))"
proof (cases "findIndex (\<lambda>t. t_id t = i) ts")
  case None
  with assms show ?thesis by (simp add: controller_deleteTicket_def)
next
  case (Some k)
  have "map f (take k ts @ drop (Suc k) ts) = take k (map f ts) @ drop (Suc k) (map f ts)"
    by (simp add: take_map drop_map)
  moreover have "distinct (take k (map f ts) @ drop (Suc k) (map f ts))"
    using assms by (simp add: set_take_disj_set_drop_if_distinct)
  ultimately show ?thesis
    using Some by (simp add: controller_deleteTicket_def)
qed

lemma update_keeps_ids_distinct:
  assumes "distinct (map t_id ts)"
  shows "distinct (map t_id (snd (controller_updateTicket e i b ts)))"
proof (cases "findIndex (\<lambda>t. t_id t = i) ts")
  case None
  with assms show ?thesis by (simp add: controller_updateTicket_def)
next
  case (Some k)
  from findIndex_Some [OF Some] have lt: "k < length ts" by simp
  then have same: "(map t_id ts)[k := t_id (ts ! k)] = map t_id ts"
    by (metis list_update_id nth_map)
  have "map t_id (snd (controller_updateTicket e i b ts)) = map t_id ts"
    unfolding controller_updateTicket_found [OF Some]
    by (simp add: map_update spread_def override_def same)
  with assms show ?thesis by simp
qed


end
